theory Spec2Isabelle
  imports Complex_Main "HOL-Library.Word" "HOL-Library.AList"
begin

unbundle bit_operations_syntax

chapter \<open>The model\<close>

section \<open>Exceptions, events and the outside world\<close>

text \<open>
  The three scripts (\<^verbatim>\<open>net_probe.py\<close>, \<^verbatim>\<open>ping_monitor.py\<close>, \<^verbatim>\<open>tcping_monitor.py\<close>) talk to
  the network, the clock, the keyboard, the console and log files. The model makes every
  such effect explicit: what the outside world answers is an argument of the function (an
  oracle), and what the program does to the outside world is a list of events, in program
  order. What Python itself decides from the arguments of a call (a negative or too long
  duration, a pool without workers, a division by zero) is decided in the model in the same
  way and is not left to an oracle.

  Python exceptions are values of \<open>error\<close>. \<open>KeyboardInterrupt\<close> and \<open>SystemExit\<close> derive from
  \<^verbatim>\<open>BaseException\<close> only, so \<^verbatim>\<open>except Exception\<close> does not catch them; all the others are
  subclasses of \<^verbatim>\<open>Exception\<close>. \<open>UnknownTimeZoneError z\<close> is raised by \<^verbatim>\<open>pytz.timezone(z)\<close>,
  \<open>UnknownMode m\<close> is the \<^verbatim>\<open>ValueError\<close> of \<^verbatim>\<open>build_port_list\<close> for a mode \<open>m\<close> it does not
  know, and \<open>RuntimeError c n m\<close> is the error of \<^verbatim>\<open>precheck_networks\<close>, whose message
  interpolates the network \<open>c\<close>, its host count \<open>n\<close> and the limit \<open>m\<close>.
\<close>

datatype error =
    KeyboardInterrupt
  | SystemExit
  | OSError
  | FileNotFoundError
  | ValueError
  | OverflowError
  | KeyError
  | ZeroDivisionError
  | UnknownTimeZoneError string
  | UnknownMode string
  | RuntimeError string nat int

fun is_Exception :: "error \<Rightarrow> bool" where
  "is_Exception KeyboardInterrupt = False"
| "is_Exception SystemExit = False"
| "is_Exception _ = True"

text \<open>Log lines and console messages, with the values the f-strings interpolate (the
  timestamp itself is left out; whether it can be formatted is modelled by \<open>now_str\<close>).\<close>

datatype logfile =
    NetLog string string
  | SummaryLog string
  | PingLog string string
  | TcpLog string string int

datatype logline =
    PingScanHeader string
  | PingLine string real
  | PingScanEnd string
  | SummaryHeader
  | AliveHosts nat
  | PortLine int nat nat real
  | Blank
  | Start
  | ConnectOk string int real
  | ConnectFail string int "error option"
  | PingOutput "string list"
  | ErrorLine error
  | MonitorSummary
  | Total nat
  | Success nat
  | Fail nat
  | AvgRtt real
  | MinRtt real
  | MaxRtt real
  | End

datatype message =
    EstimateBlock nat nat nat real
  | PingStart string
  | Newline
  | AliveCount nat
  | TcpStart
  | TcpOk string int real
  | ScanDone
  | NotEnabled
  | Banner
  | Line logline
  | Interrupted
  | Saved

text \<open>How one probe attempt ended: it returned success, returned failure, or raised.\<close>

datatype outcome = Succeeded | Failed | Raised

datatype event =
    PingAttempt string outcome
  | TcpAttempt string int outcome
  | Sleep real
  | Progress nat nat
  | Print message
  | Write logfile logline
  | Makedirs string

definition returned :: "bool \<Rightarrow> outcome" where
  "returned ok = (if ok then Succeeded else Failed)"

text \<open>
  The part of the platform that all three scripts use. \<open>zones z\<close>: \<^verbatim>\<open>pytz\<close> knows the time
  zone \<open>z\<close>. \<open>is_dir d\<close>: the directory \<open>d\<close> exists when the script starts. \<open>makedirs d\<close>: what
  \<^verbatim>\<open>os.makedirs(d, exist_ok=True)\<close> raises, \<open>None\<close> when it returns (and \<open>d\<close> then exists).
  \<open>ipv6 s\<close>: what the standard library makes of \<open>s\<close> as an IPv6 network, see the address
  enumerator below. Opening a log file for appending raises \<^verbatim>\<open>FileNotFoundError\<close> when its
  directory does not exist; otherwise opening and writing are taken to succeed.
\<close>

record platform =
  zones :: "string \<Rightarrow> bool"
  is_dir :: "string \<Rightarrow> bool"
  makedirs :: "string \<Rightarrow> error option"
  ipv6 :: "string \<Rightarrow> string list option"

text \<open>\<^verbatim>\<open>now_str(tz_name)\<close>: \<^verbatim>\<open>pytz.timezone\<close> raises for a zone it does not know.\<close>

definition now_str :: "'a platform_scheme \<Rightarrow> string \<Rightarrow> error + unit" where
  "now_str pf tz = (if zones pf tz then Inr () else Inl (UnknownTimeZoneError tz))"

text \<open>
  \<^verbatim>\<open>time.sleep(d)\<close> raises \<^verbatim>\<open>ValueError\<close> for a negative \<open>d\<close>, and \<^verbatim>\<open>OverflowError\<close> for a \<open>d\<close>
  that does not fit into a signed 64-bit count of nanoseconds (CPython keeps durations in
  that form; the rounding of floating-point numbers at the very limit is not modelled).
  Otherwise it sleeps, unless something is raised while it sleeps: \<open>nap\<close> is that exception,
  if any. In the main thread this is \<^verbatim>\<open>KeyboardInterrupt\<close> when the operator presses Ctrl+C;
  it also stands for a lower limit of an older platform, raised in the same way. A sleep
  that is cut short leaves no \<open>Sleep\<close> event. An interrupt is taken to arrive while the
  thread is blocked in a call, the probe or the sleep, which is where it spends its time.
\<close>

definition time_max :: real where
  "time_max = (2 ^ 63 - 1) / 10 ^ 9"

definition sleep :: "error option \<Rightarrow> real \<Rightarrow> error + event" where
  "sleep nap d =
     (if d < 0 then Inl ValueError
      else if time_max < d then Inl OverflowError
      else case nap of Some e \<Rightarrow> Inl e | None \<Rightarrow> Inr (Sleep d))"

text \<open>\<^verbatim>\<open>sock.settimeout(t)\<close> checks its argument in the same way.\<close>

definition settimeout :: "real \<Rightarrow> error option" where
  "settimeout t =
     (if t < 0 then Some ValueError
      else if time_max < t then Some OverflowError
      else None)"

section \<open>Probe executors of \<^verbatim>\<open>net_probe.py\<close>\<close>

text \<open>
  What one run of the \<^verbatim>\<open>ping\<close> command does: \<^verbatim>\<open>subprocess.run\<close> raises (there is no \<^verbatim>\<open>try\<close>
  around it), or the command exits with a return code after some milliseconds.
\<close>

datatype ping_run = RunRaises error | Returncode int real

fun ping_once :: "ping_run \<Rightarrow> error + (bool \<times> real option)" where
  "ping_once (RunRaises e) = Inl e"
| "ping_once (Returncode rc ms) = (if rc = 0 then Inr (True, Some ms) else Inr (False, None))"

text \<open>
  What one TCP connection does: creating the socket raises, or \<^verbatim>\<open>connect\<close> returns after some
  milliseconds, or \<^verbatim>\<open>connect\<close> raises. Creating the socket and setting its timeout stand
  before the \<^verbatim>\<open>try\<close>; only \<^verbatim>\<open>connect\<close> is inside, and \<^verbatim>\<open>except Exception\<close> does not catch a
  \<^verbatim>\<open>BaseException\<close> such as \<^verbatim>\<open>KeyboardInterrupt\<close>.
\<close>

datatype conn = SocketRaises error | Connects real | ConnectRaises error

fun tcp_connect_once :: "conn \<Rightarrow> real \<Rightarrow> error + (bool \<times> real option)" where
  "tcp_connect_once (SocketRaises e) t = Inl e"
| "tcp_connect_once (Connects ms) t =
     (case settimeout t of Some e \<Rightarrow> Inl e | None \<Rightarrow> Inr (True, Some ms))"
| "tcp_connect_once (ConnectRaises e) t =
     (case settimeout t of
        Some e' \<Rightarrow> Inl e'
      | None \<Rightarrow> if is_Exception e then Inr (False, None) else Inl e)"

section \<open>Retrying prober\<close>

record probe_cfg =
  timeout :: real
  retry :: int
  rate_limit :: real

text \<open>
  \<^verbatim>\<open>ping_worker(ip, cfg)\<close>: the loop \<^verbatim>\<open>for _ in range(cfg["retry"] + 1)\<close> as a recursion on the
  number of rounds left. \<open>env i\<close> is what the \<open>i\<close>-th run of \<^verbatim>\<open>ping\<close> for this host does and
  \<open>naps i\<close> what is raised during the sleep after it, if anything. The result is the trace of
  the worker and either the exception that left it or its return value (\<open>None\<close> for Python's
  \<^verbatim>\<open>None\<close>).
\<close>

fun ping_rounds ::
  "(nat \<Rightarrow> ping_run) \<Rightarrow> (nat \<Rightarrow> error option) \<Rightarrow> 'a probe_cfg_scheme \<Rightarrow> string \<Rightarrow> nat \<Rightarrow> nat
    \<Rightarrow> event list \<times> (error + (string \<times> real) option)" where
  "ping_rounds env naps cfg ip i 0 = ([], Inr None)"
| "ping_rounds env naps cfg ip i (Suc n) =
     (case ping_once (env i) of
        Inl e \<Rightarrow> ([PingAttempt ip Raised], Inl e)
      | Inr (ok, cost) \<Rightarrow>
          (case sleep (naps i) (rate_limit cfg) of
             Inl e \<Rightarrow> ([PingAttempt ip (returned ok)], Inl e)
           | Inr s \<Rightarrow>
               if ok then ([PingAttempt ip (returned ok), s], Inr (Some (ip, the cost)))
               else (case ping_rounds env naps cfg ip (Suc i) n of
                       (tr, res) \<Rightarrow> (PingAttempt ip (returned ok) # s # tr, res))))"

definition ping_worker ::
  "(nat \<Rightarrow> ping_run) \<Rightarrow> (nat \<Rightarrow> error option) \<Rightarrow> 'a probe_cfg_scheme \<Rightarrow> string
    \<Rightarrow> event list \<times> (error + (string \<times> real) option)" where
  "ping_worker env naps cfg ip = ping_rounds env naps cfg ip 0 (nat (retry cfg + 1))"

text \<open>
  \<^verbatim>\<open>tcp_with_retry(host, port, cfg)\<close>. The TCP phase is sequential, so its oracles are tapes:
  \<open>env k\<close> is what the \<open>k\<close>-th connection of the whole phase does, \<open>naps k\<close> what is raised
  during the sleep after it, and \<open>k\<close> is the position of the next attempt; the new position is
  returned with the result.
\<close>

fun tcp_rounds ::
  "(nat \<Rightarrow> conn) \<Rightarrow> (nat \<Rightarrow> error option) \<Rightarrow> 'a probe_cfg_scheme \<Rightarrow> string \<Rightarrow> int \<Rightarrow> nat
    \<Rightarrow> nat \<Rightarrow> event list \<times> nat \<times> (error + (bool \<times> real option))" where
  "tcp_rounds env naps cfg host port k 0 = ([], k, Inr (False, None))"
| "tcp_rounds env naps cfg host port k (Suc n) =
     (case tcp_connect_once (env k) (timeout cfg) of
        Inl e \<Rightarrow> ([TcpAttempt host port Raised], Suc k, Inl e)
      | Inr (ok, cost) \<Rightarrow>
          (case sleep (naps k) (rate_limit cfg) of
             Inl e \<Rightarrow> ([TcpAttempt host port (returned ok)], Suc k, Inl e)
           | Inr s \<Rightarrow>
               if ok then ([TcpAttempt host port (returned ok), s], Suc k, Inr (True, cost))
               else (case tcp_rounds env naps cfg host port (Suc k) n of
                       (tr, k', res) \<Rightarrow> (TcpAttempt host port (returned ok) # s # tr, k', res))))"

definition tcp_with_retry ::
  "(nat \<Rightarrow> conn) \<Rightarrow> (nat \<Rightarrow> error option) \<Rightarrow> 'a probe_cfg_scheme \<Rightarrow> string \<Rightarrow> int \<Rightarrow> nat
    \<Rightarrow> event list \<times> nat \<times> (error + (bool \<times> real option))" where
  "tcp_with_retry env naps cfg host port k =
     tcp_rounds env naps cfg host port k (nat (retry cfg + 1))"

text \<open>Reading a trace of the retrying prober.\<close>

fun is_attempt :: "event \<Rightarrow> bool" where
  "is_attempt (PingAttempt _ _) = True"
| "is_attempt (TcpAttempt _ _ _) = True"
| "is_attempt _ = False"

definition attempts :: "event list \<Rightarrow> nat" where
  "attempts tr = length (filter is_attempt tr)"

text \<open>\<open>sleeps_after_every_attempt d tr\<close>: in the trace, every attempt is directly followed by
  a sleep of \<open>d\<close>.\<close>

fun starts_with_sleep :: "real \<Rightarrow> event list \<Rightarrow> bool" where
  "starts_with_sleep d (Sleep d' # tr) = (d' = d)"
| "starts_with_sleep d _ = False"

fun sleeps_after_every_attempt :: "real \<Rightarrow> event list \<Rightarrow> bool" where
  "sleeps_after_every_attempt d [] = True"
| "sleeps_after_every_attempt d (a # tr) =
     ((is_attempt a \<longrightarrow> starts_with_sleep d tr) \<and> sleeps_after_every_attempt d tr)"

text \<open>\<open>failed_rounds a d j\<close>: the trace of \<open>j\<close> rounds in which the attempt \<open>a\<close> is followed by
  a sleep of \<open>d\<close>.\<close>

definition failed_rounds :: "event \<Rightarrow> real \<Rightarrow> nat \<Rightarrow> event list" where
  "failed_rounds a d j = concat (replicate j [a, Sleep d])"

section \<open>Address enumerator\<close>

text \<open>
  \<^verbatim>\<open>expand_network\<close> and \<^verbatim>\<open>precheck_networks\<close> call \<^verbatim>\<open>ipaddress.ip_network(cidr, strict=False)\<close>
  and \<^verbatim>\<open>.hosts()\<close> of Python's standard library (as of Python 3.9.5). This section models
  that library for IPv4: the address is four decimal octets, the part after the slash is a
  prefix length or a netmask or hostmask in dotted form, and a string without a slash is a
  /32. A string that is not an IPv4 network is then tried as an IPv6 network by the library;
  that part is not modelled but left to the oracle \<open>ipv6\<close> of the platform, which answers
  with the host addresses of the IPv6 network, or \<open>None\<close> when the library raises
  \<^verbatim>\<open>ValueError\<close>.
\<close>

























section \<open>Port list and port statistics\<close>


text \<open>
  The \<^verbatim>\<open>tcp_scan\<close> section. Keys read with \<^verbatim>\<open>cfg.get\<close> are optional; \<^verbatim>\<open>port_range\<close> is the
  pair of its \<^verbatim>\<open>start\<close> and \<^verbatim>\<open>end\<close>.
\<close>

record tcp_cfg = probe_cfg +
  enable :: bool
  mode :: "string option"
  ports :: "int list option"
  port_range :: "(int \<times> int) option"

text \<open>
  \<^verbatim>\<open>build_port_list(cfg)\<close> mutates \<^verbatim>\<open>cfg\<close> in full mode; the model returns the port list
  together with the configuration as it is afterwards.
\<close>

definition build_port_list :: "tcp_cfg \<Rightarrow> error + (int list \<times> tcp_cfg)" where
  "build_port_list cfg =
     (let m = (case mode cfg of None \<Rightarrow> ''list'' | Some m \<Rightarrow> m) in
      if m = ''list'' then Inr ((case ports cfg of None \<Rightarrow> [] | Some ps \<Rightarrow> ps), cfg)
      else if m = ''range'' then
        (case port_range cfg of
           None \<Rightarrow> Inl KeyError
         | Some (start, stop) \<Rightarrow> Inr ([start..stop], cfg))
      else if m = ''full'' then
        Inr ([1..65535], cfg\<lparr>retry := 0, rate_limit := max (rate_limit cfg) (1 / 10)\<rparr>)
      else Inl (UnknownMode m))"






section \<open>Precheck\<close>



section \<open>Ping phase: the concurrent scan pool\<close>





section \<open>TCP phase and summary\<close>








section \<open>Scan orchestrator: \<^verbatim>\<open>main\<close> of \<^verbatim>\<open>net_probe.py\<close>\<close>










section \<open>Continuous monitors: \<^verbatim>\<open>tcping_monitor.py\<close> and \<^verbatim>\<open>ping_monitor.py\<close>\<close>

text \<open>
  Both monitors run \<^verbatim>\<open>while True\<close> inside \<^verbatim>\<open>try\<close>; the loop ends only when something is
  raised in it. The outside world is a script: one entry for each iteration, saying what
  the probe does and whether something is raised afterwards, while the line is logged
  or during \<^verbatim>\<open>time.sleep\<close> (where an interrupt from the keyboard usually arrives). A script
  that ends before anything is raised describes a monitor that is still running: the
  loop then has no result (\<open>None\<close>).
\<close>

record counters =
  total_count :: nat
  success_count :: nat
  fail_count :: nat
  cost_list :: "real list"

definition no_counts :: counters where
  "no_counts = \<lparr>total_count = 0, success_count = 0, fail_count = 0, cost_list = []\<rparr>"

text \<open>
  The rest of an iteration after the counters are updated: log the line, then sleep.
  \<open>before_log\<close> is what is raised before the line is printed, \<open>during_sleep\<close> what is raised
  while the monitor sleeps.
\<close>

record after_probe =
  before_log :: "error option"
  during_sleep :: "error option"

definition log_and_sleep ::
  "'a after_probe_scheme \<Rightarrow> event list \<Rightarrow> int \<Rightarrow> event list \<times> (error + unit)" where
  "log_and_sleep it out interval =
     (case before_log it of
        Some e \<Rightarrow> ([], Inl e)
      | None \<Rightarrow>
          (case sleep (during_sleep it) (real_of_int interval) of
             Inl e \<Rightarrow> (out, Inl e)
           | Inr s \<Rightarrow> (out @ [s], Inr ())))"

text \<open>\<^verbatim>\<open>tcp_connect_test\<close> of \<^verbatim>\<open>tcping_monitor.py\<close>; the third component is the caught exception,
  for the message \<^verbatim>\<open>str(e)\<close>.\<close>

fun tcp_connect_test :: "conn \<Rightarrow> int \<Rightarrow> error + (bool \<times> real option \<times> error option)" where
  "tcp_connect_test (SocketRaises e) t = Inl e"
| "tcp_connect_test (Connects ms) t =
     (case settimeout (real_of_int t) of Some e \<Rightarrow> Inl e | None \<Rightarrow> Inr (True, Some ms, None))"
| "tcp_connect_test (ConnectRaises e) t =
     (case settimeout (real_of_int t) of
        Some e' \<Rightarrow> Inl e'
      | None \<Rightarrow> if is_Exception e then Inr (False, None, Some e) else Inl e)"

record tcp_iter = after_probe +
  connection :: conn

text \<open>The \<^verbatim>\<open>while True\<close> loop of \<^verbatim>\<open>tcping_monitor.py\<close>: the trace, the counters and the
  exception with which it is left.\<close>

fun tcping_loop ::
  "string \<Rightarrow> string \<Rightarrow> int \<Rightarrow> int \<Rightarrow> int \<Rightarrow> counters \<Rightarrow> tcp_iter list
    \<Rightarrow> (event list \<times> counters \<times> error) option" where
  "tcping_loop host dir port t interval c [] = None"
| "tcping_loop host dir port t interval c (it # script) =
     (let c1 = c\<lparr>total_count := total_count c + 1\<rparr> in
      case tcp_connect_test (connection it) t of
        Inl e \<Rightarrow> Some ([], c1, e)
      | Inr (ok, cost, err) \<Rightarrow>
          (let c2 = (if ok
                     then c1\<lparr>success_count := success_count c1 + 1,
                             cost_list := cost_list c1 @ [the cost]\<rparr>
                     else c1\<lparr>fail_count := fail_count c1 + 1\<rparr>);
               log_line = (if ok then ConnectOk host port (the cost)
                           else ConnectFail host port err)
           in case log_and_sleep it [Print (Line log_line), Write (TcpLog dir host port) log_line]
                     interval of
                (tr, Inl e) \<Rightarrow> Some (tr, c2, e)
              | (tr, Inr _) \<Rightarrow>
                  (case tcping_loop host dir port t interval c2 script of
                     None \<Rightarrow> None
                   | Some (tr2, c3, e) \<Rightarrow> Some (tr @ tr2, c3, e))))"

text \<open>
  The body of the \<^verbatim>\<open>try\<close>: the log file is opened, a blank line and the start line are
  written, then the loop runs. The start line is formatted with \<^verbatim>\<open>now_str\<close>; if that raises,
  the loop is never entered and the counters are still zero.
\<close>

definition try_body ::
  "'a platform_scheme \<Rightarrow> string \<Rightarrow> logfile \<Rightarrow> (event list \<times> counters \<times> error) option
    \<Rightarrow> (event list \<times> counters \<times> error) option" where
  "try_body pf tz f loop =
     (case now_str pf tz of
        Inl e \<Rightarrow> Some ([Write f Blank], no_counts, e)
      | Inr _ \<Rightarrow>
          (case loop of
             None \<Rightarrow> None
           | Some (tr, c, e) \<Rightarrow> Some (Write f Blank # Write f Start # tr, c, e)))"

text \<open>
  The \<^verbatim>\<open>except\<close> clauses: what is done, and the exception that is still propagating
  afterwards, if any. \<^verbatim>\<open>except Exception\<close> formats its line with \<^verbatim>\<open>now_str\<close>, which may raise
  in its turn.
\<close>

definition on_exception ::
  "'a platform_scheme \<Rightarrow> string \<Rightarrow> logfile \<Rightarrow> error \<Rightarrow> event list \<times> error option" where
  "on_exception pf tz f e =
     (if e = KeyboardInterrupt then ([Print Interrupted], None)
      else if is_Exception e then
        (case now_str pf tz of
           Inl e2 \<Rightarrow> ([], Some e2)
         | Inr _ \<Rightarrow> ([Write f (ErrorLine e)], None))
      else ([], Some e))"

definition avg_cost :: "real list \<Rightarrow> real" where
  "avg_cost cs = (if cs \<noteq> [] then sum_list cs / real (length cs) else 0)"

definition min_cost :: "real list \<Rightarrow> real" where
  "min_cost cs = (if cs \<noteq> [] then Min (set cs) else 0)"

definition max_cost :: "real list \<Rightarrow> real" where
  "max_cost cs = (if cs \<noteq> [] then Max (set cs) else 0)"

text \<open>The statistics lines of the summary block.\<close>

definition summary_lines :: "logfile \<Rightarrow> counters \<Rightarrow> event list" where
  "summary_lines f c =
     [Write f MonitorSummary,
      Write f (Total (total_count c)),
      Write f (Success (success_count c)),
      Write f (Fail (fail_count c)),
      Write f (AvgRtt (avg_cost (cost_list c))),
      Write f (MinRtt (min_cost (cost_list c))),
      Write f (MaxRtt (max_cost (cost_list c)))]"

text \<open>
  The \<^verbatim>\<open>finally\<close> block; \<open>pending\<close> is the exception that is propagating when it is entered.
  The end line is formatted with \<^verbatim>\<open>now_str\<close>; if that raises, the lines before it have been
  written and the new exception propagates.
\<close>

definition write_summary ::
  "'a platform_scheme \<Rightarrow> string \<Rightarrow> logfile \<Rightarrow> counters \<Rightarrow> error option
    \<Rightarrow> event list \<times> error option" where
  "write_summary pf tz f c pending =
     (case now_str pf tz of
        Inl e \<Rightarrow> (summary_lines f c, Some e)
      | Inr _ \<Rightarrow> (summary_lines f c @ [Write f End, Print Saved], pending))"

text \<open>The \<^verbatim>\<open>try\<close> statement as a whole, after the banner is printed.\<close>

definition monitor ::
  "'a platform_scheme \<Rightarrow> string \<Rightarrow> logfile \<Rightarrow> (event list \<times> counters \<times> error) option
    \<Rightarrow> (event list \<times> (error + unit)) option" where
  "monitor pf tz f loop =
     (case try_body pf tz f loop of
        None \<Rightarrow> None
      | Some (tr, c, e) \<Rightarrow>
          (case on_exception pf tz f e of
             (handled, pending) \<Rightarrow>
               (case write_summary pf tz f c pending of
                  (written, pending') \<Rightarrow>
                    Some (Print Banner # tr @ handled @ written,
                          case pending' of None \<Rightarrow> Inr () | Some e' \<Rightarrow> Inl e'))))"

text \<open>\<^verbatim>\<open>main\<close> of \<^verbatim>\<open>tcping_monitor.py\<close>; \<open>dir\<close> and \<open>tz\<close> are the log directory and the time zone
  after the defaults of the configuration are applied.\<close>

definition tcping_main ::
  "'a platform_scheme \<Rightarrow> string option \<Rightarrow> string \<Rightarrow> string \<Rightarrow> bool \<Rightarrow> int \<Rightarrow> int \<Rightarrow> int
    \<Rightarrow> tcp_iter list \<Rightarrow> (event list \<times> (error + unit)) option" where
  "tcping_main pf host dir tz enabled port t interval script =
     (if \<not> enabled then Some ([Print NotEnabled], Inr ())
      else case host of
        None \<Rightarrow> Some ([], Inl ValueError)
      | Some h \<Rightarrow>
          if h = [] then Some ([], Inl ValueError)
          else case makedirs pf dir of
            Some e \<Rightarrow> Some ([], Inl e)
          | None \<Rightarrow>
              (case monitor pf tz (TcpLog dir h port)
                      (tcping_loop h dir port t interval no_counts script) of
                 None \<Rightarrow> None
               | Some (tr, res) \<Rightarrow> Some (Makedirs dir # tr, res)))"

text \<open>
  One line of the output of \<^verbatim>\<open>ping\<close>, as the loop body sees it: the results of the string
  tests it makes on the line and of the two \<^verbatim>\<open>float(...)\<close> conversions of \<^verbatim>\<open>parse_rtt\<close>
  (\<open>None\<close> when the conversion raises).
\<close>

record ping_line =
  blank :: bool
  pinging :: bool
  timed_out :: bool
  has_time :: bool
  time_value :: "real option"
  has_time_cn :: bool
  time_cn_value :: "real option"
  stripped :: string

definition parse_rtt :: "ping_line \<Rightarrow> real option" where
  "parse_rtt l =
     (if has_time l then time_value l
      else if has_time_cn l then time_cn_value l
      else None)"

fun read_output ::
  "ping_line list \<Rightarrow> string list \<Rightarrow> real option \<Rightarrow> bool \<Rightarrow> string list \<times> real option \<times> bool"
  where
  "read_output [] lines rtt failed = (lines, rtt, failed)"
| "read_output (l # rest) lines rtt failed =
     (if blank l then read_output rest lines rtt failed
      else if pinging l then read_output rest lines rtt failed
      else read_output rest (lines @ [stripped l])
             (case parse_rtt l of Some v \<Rightarrow> Some v | None \<Rightarrow> rtt)
             (failed \<or> timed_out l))"

text \<open>One run of \<^verbatim>\<open>ping\<close> in the monitor: \<^verbatim>\<open>Popen\<close> raises, or the lines are read, and
  something may be raised while waiting for more output.\<close>

datatype ping_proc = PopenRaises error | Reads "ping_line list" "error option"

record ping_iter = after_probe +
  proc :: ping_proc

fun ping_loop ::
  "string \<Rightarrow> string \<Rightarrow> int \<Rightarrow> counters \<Rightarrow> ping_iter list
    \<Rightarrow> (event list \<times> counters \<times> error) option" where
  "ping_loop host dir interval c [] = None"
| "ping_loop host dir interval c (it # script) =
     (let c1 = c\<lparr>total_count := total_count c + 1\<rparr> in
      case proc it of
        PopenRaises e \<Rightarrow> Some ([], c1, e)
      | Reads output (Some e) \<Rightarrow> Some ([], c1, e)
      | Reads output None \<Rightarrow>
          (case read_output output [] None False of
             (lines, rtt, failed) \<Rightarrow>
               (let c2 = (case rtt of
                            Some v \<Rightarrow> c1\<lparr>cost_list := cost_list c1 @ [v]\<rparr>
                          | None \<Rightarrow> c1);
                    c3 = (if failed \<or> rtt = None
                          then c2\<lparr>fail_count := fail_count c2 + 1\<rparr>
                          else c2\<lparr>success_count := success_count c2 + 1\<rparr>);
                    out = (if lines \<noteq> []
                           then [Print (Line (PingOutput lines)),
                                 Write (PingLog dir host) (PingOutput lines)]
                           else [])
                in case log_and_sleep it out interval of
                     (tr, Inl e) \<Rightarrow> Some (tr, c3, e)
                   | (tr, Inr _) \<Rightarrow>
                       (case ping_loop host dir interval c3 script of
                          None \<Rightarrow> None
                        | Some (tr2, c4, e) \<Rightarrow> Some (tr @ tr2, c4, e)))))"

text \<open>\<^verbatim>\<open>main\<close> of \<^verbatim>\<open>ping_monitor.py\<close>, which creates the log directory before it looks at
  \<^verbatim>\<open>ping.enable\<close>.\<close>

definition ping_main ::
  "'a platform_scheme \<Rightarrow> string \<Rightarrow> string \<Rightarrow> string \<Rightarrow> bool \<Rightarrow> int \<Rightarrow> ping_iter list
    \<Rightarrow> (event list \<times> (error + unit)) option" where
  "ping_main pf host dir tz enabled interval script =
     (case makedirs pf dir of
        Some e \<Rightarrow> Some ([], Inl e)
      | None \<Rightarrow>
          if \<not> enabled then Some ([Makedirs dir, Print NotEnabled], Inr ())
          else (case monitor pf tz (PingLog dir host)
                       (ping_loop host dir interval no_counts script) of
                  None \<Rightarrow> None
                | Some (tr, res) \<Rightarrow> Some (Makedirs dir # tr, res)))"

section \<open>Reading the summary block\<close>



section \<open>Example inputs\<close>

text \<open>Concrete configurations and outside worlds, used to evaluate the model.\<close>

definition example_cfg :: probe_cfg where
  "example_cfg = \<lparr>timeout = 1, retry = 2, rate_limit = 1 / 2\<rparr>"

definition no_naps :: "nat \<Rightarrow> error option" where
  "no_naps i = None"

definition no_reply :: "nat \<Rightarrow> ping_run" where
  "no_reply i = Returncode 1 4000"

definition ping_missing :: "nat \<Rightarrow> ping_run" where
  "ping_missing i = RunRaises FileNotFoundError"

definition refused_then_open :: "nat \<Rightarrow> conn" where
  "refused_then_open k = (if k = 0 then ConnectRaises OSError else Connects 5)"

definition overlong_cfg :: probe_cfg where
  "overlong_cfg = \<lparr>timeout = 1, retry = 2, rate_limit = 10 ^ 10\<rparr>"

definition full_sweep_cfg :: tcp_cfg where
  "full_sweep_cfg =
     \<lparr>timeout = 1, retry = 3, rate_limit = 1 / 100, enable = True, mode = Some ''full'',
      ports = None, port_range = None\<rparr>"

definition list_cfg :: tcp_cfg where
  "list_cfg =
     \<lparr>timeout = 1, retry = 3, rate_limit = 1 / 100, enable = True, mode = None,
      ports = Some [22, 80], port_range = None\<rparr>"




chapter \<open>Properties\<close>

section \<open>Retrying prober\<close>

text \<open>When \<^verbatim>\<open>time.sleep\<close> returns: for a duration it accepts, and if nothing is raised
  meanwhile.\<close>

lemma sleep_Inr_iff:
  "sleep nap d = Inr s \<longleftrightarrow> 0 \<le> d \<and> d \<le> time_max \<and> nap = None \<and> s = Sleep d"
  by (auto simp: sleep_def split: option.splits)

lemma failed_rounds_simps:
  "failed_rounds a d 0 = []"
  "failed_rounds a d (Suc j) = a # Sleep d # failed_rounds a d j"
  by (simp_all add: failed_rounds_def)

lemma attempts_simps:
  "attempts [] = 0"
  "attempts (a # tr) = (if is_attempt a then Suc (attempts tr) else attempts tr)"
  by (simp_all add: attempts_def)

text \<open>The probers never make more attempts than they have rounds.\<close>

lemma ping_rounds_attempts:
  "attempts (fst (ping_rounds env naps cfg ip i n)) \<le> n"
  by (induction n arbitrary: i)
     (auto simp: attempts_simps case_prod_beta sleep_Inr_iff split: sum.splits)

lemma tcp_rounds_attempts:
  "attempts (fst (tcp_rounds env naps cfg h p k n)) \<le> n"
  by (induction n arbitrary: k)
     (auto simp: attempts_simps case_prod_beta sleep_Inr_iff split: sum.splits)

text \<open>Rounds in which the attempt fails and the sleep returns are followed by the rest
  of the loop.\<close>

lemma ping_rounds_failed:
  assumes "\<forall>m<j. ping_once (env (i + m)) = Inr (False, None)
               \<and> sleep (naps (i + m)) (rate_limit cfg) = Inr (Sleep (rate_limit cfg))"
  shows "ping_rounds env naps cfg ip i (j + n)
           = (failed_rounds (PingAttempt ip Failed) (rate_limit cfg) j
                @ fst (ping_rounds env naps cfg ip (i + j) n),
              snd (ping_rounds env naps cfg ip (i + j) n))"
  using assms
proof (induction j arbitrary: i)
  case 0
  then show ?case by (simp add: failed_rounds_simps)
next
  case (Suc j)
  from Suc.prems have now: "ping_once (env i) = Inr (False, None)"
      "sleep (naps i) (rate_limit cfg) = Inr (Sleep (rate_limit cfg))"
    by (metis add.right_neutral zero_less_Suc)+
  from Suc.prems have "\<forall>m<j. ping_once (env (Suc i + m)) = Inr (False, None)
      \<and> sleep (naps (Suc i + m)) (rate_limit cfg) = Inr (Sleep (rate_limit cfg))"
    by (metis Suc_less_eq add_Suc_right add_Suc)
  from Suc.IH[OF this] now show ?case
    by (simp add: failed_rounds_simps returned_def case_prod_beta)
qed

lemma tcp_rounds_failed:
  assumes "\<forall>m<j. tcp_connect_once (env (k + m)) (timeout cfg) = Inr (False, None)
               \<and> sleep (naps (k + m)) (rate_limit cfg) = Inr (Sleep (rate_limit cfg))"
  shows "tcp_rounds env naps cfg h p k (j + n)
           = (failed_rounds (TcpAttempt h p Failed) (rate_limit cfg) j
                @ fst (tcp_rounds env naps cfg h p (k + j) n),
              snd (tcp_rounds env naps cfg h p (k + j) n))"
  using assms
proof (induction j arbitrary: k)
  case 0
  then show ?case by (simp add: failed_rounds_simps)
next
  case (Suc j)
  from Suc.prems have now: "tcp_connect_once (env k) (timeout cfg) = Inr (False, None)"
      "sleep (naps k) (rate_limit cfg) = Inr (Sleep (rate_limit cfg))"
    by (metis add.right_neutral zero_less_Suc)+
  from Suc.prems have "\<forall>m<j. tcp_connect_once (env (Suc k + m)) (timeout cfg) = Inr (False, None)
      \<and> sleep (naps (Suc k + m)) (rate_limit cfg) = Inr (Sleep (rate_limit cfg))"
    by (metis Suc_less_eq add_Suc_right add_Suc)
  from Suc.IH[OF this] now show ?case
    by (simp add: failed_rounds_simps returned_def case_prod_beta)
qed

lemma sleeps_after_failed_rounds:
  "is_attempt a \<Longrightarrow>
   sleeps_after_every_attempt d (failed_rounds a d j @ tr) = sleeps_after_every_attempt d tr"
  by (induction j) (simp_all add: failed_rounds_simps)

lemma ping_rounds_sleeps:
  assumes "\<forall>m<n. (\<exists>r. ping_once (env (i + m)) = Inr r)
               \<and> sleep (naps (i + m)) (rate_limit cfg) = Inr (Sleep (rate_limit cfg))"
  shows "sleeps_after_every_attempt (rate_limit cfg) (fst (ping_rounds env naps cfg ip i n))"
  using assms
proof (induction n arbitrary: i)
  case 0
  then show ?case by simp
next
  case (Suc n)
  from Suc.prems obtain r where now: "ping_once (env i) = Inr r"
      "sleep (naps i) (rate_limit cfg) = Inr (Sleep (rate_limit cfg))"
    by (metis add.right_neutral zero_less_Suc)
  from Suc.prems have "\<forall>m<n. (\<exists>r. ping_once (env (Suc i + m)) = Inr r)
      \<and> sleep (naps (Suc i + m)) (rate_limit cfg) = Inr (Sleep (rate_limit cfg))"
    by (metis Suc_less_eq add_Suc_right add_Suc)
  from Suc.IH[OF this] now show ?case
    by (cases r) (simp add: case_prod_beta)
qed

lemma tcp_rounds_sleeps:
  assumes "\<forall>m<n. (\<exists>r. tcp_connect_once (env (k + m)) (timeout cfg) = Inr r)
               \<and> sleep (naps (k + m)) (rate_limit cfg) = Inr (Sleep (rate_limit cfg))"
  shows "sleeps_after_every_attempt (rate_limit cfg) (fst (tcp_rounds env naps cfg h p k n))"
  using assms
proof (induction n arbitrary: k)
  case 0
  then show ?case by simp
next
  case (Suc n)
  from Suc.prems obtain r where now: "tcp_connect_once (env k) (timeout cfg) = Inr r"
      "sleep (naps k) (rate_limit cfg) = Inr (Sleep (rate_limit cfg))"
    by (metis add.right_neutral zero_less_Suc)
  from Suc.prems have "\<forall>m<n. (\<exists>r. tcp_connect_once (env (Suc k + m)) (timeout cfg) = Inr r)
      \<and> sleep (naps (Suc k + m)) (rate_limit cfg) = Inr (Sleep (rate_limit cfg))"
    by (metis Suc_less_eq add_Suc_right add_Suc)
  from Suc.IH[OF this] now show ?case
    by (cases r) (simp add: case_prod_beta)
qed


lemma ping_rounds_stop:
  assumes "j < N"
    and "\<forall>m<j. ping_once (env (i + m)) = Inr (False, None)
               \<and> sleep (naps (i + m)) (rate_limit cfg) = Inr (Sleep (rate_limit cfg))"
  shows "ping_once (env (i + j)) = Inl e \<Longrightarrow>
           ping_rounds env naps cfg ip i N
             = (failed_rounds (PingAttempt ip Failed) (rate_limit cfg) j @ [PingAttempt ip Raised],
                Inl e)"
    and "ping_once (env (i + j)) = Inr (ok, c) \<Longrightarrow> sleep (naps (i + j)) (rate_limit cfg) = Inl e \<Longrightarrow>
           ping_rounds env naps cfg ip i N
             = (failed_rounds (PingAttempt ip Failed) (rate_limit cfg) j
                  @ [PingAttempt ip (returned ok)], Inl e)"
    and "ping_once (env (i + j)) = Inr (True, Some ms) \<Longrightarrow>
         sleep (naps (i + j)) (rate_limit cfg) = Inr (Sleep (rate_limit cfg)) \<Longrightarrow>
           ping_rounds env naps cfg ip i N
             = (failed_rounds (PingAttempt ip Failed) (rate_limit cfg) j
                  @ [PingAttempt ip Succeeded, Sleep (rate_limit cfg)], Inr (Some (ip, ms)))"
proof -
  from assms(1) obtain n where N: "N = j + Suc n"
    by (metis add_Suc_right less_iff_Suc_add)
  note step = ping_rounds_failed[OF assms(2), of ip "Suc n", folded N]
  show "ping_once (env (i + j)) = Inl e \<Longrightarrow>
           ping_rounds env naps cfg ip i N
             = (failed_rounds (PingAttempt ip Failed) (rate_limit cfg) j @ [PingAttempt ip Raised],
                Inl e)"
    by (simp add: step)
  show "ping_once (env (i + j)) = Inr (ok, c) \<Longrightarrow> sleep (naps (i + j)) (rate_limit cfg) = Inl e \<Longrightarrow>
           ping_rounds env naps cfg ip i N
             = (failed_rounds (PingAttempt ip Failed) (rate_limit cfg) j
                  @ [PingAttempt ip (returned ok)], Inl e)"
    by (simp add: step)
  show "ping_once (env (i + j)) = Inr (True, Some ms) \<Longrightarrow>
         sleep (naps (i + j)) (rate_limit cfg) = Inr (Sleep (rate_limit cfg)) \<Longrightarrow>
           ping_rounds env naps cfg ip i N
             = (failed_rounds (PingAttempt ip Failed) (rate_limit cfg) j
                  @ [PingAttempt ip Succeeded, Sleep (rate_limit cfg)], Inr (Some (ip, ms)))"
    by (simp add: step returned_def)
qed

lemma ping_rounds_exhaust:
  assumes "\<forall>m<N. ping_once (env (i + m)) = Inr (False, None)
               \<and> sleep (naps (i + m)) (rate_limit cfg) = Inr (Sleep (rate_limit cfg))"
  shows "ping_rounds env naps cfg ip i N
           = (failed_rounds (PingAttempt ip Failed) (rate_limit cfg) N, Inr None)"
  using ping_rounds_failed[OF assms, of ip 0] by simp

lemma tcp_rounds_stop:
  assumes "j < N"
    and "\<forall>m<j. tcp_connect_once (env (k + m)) (timeout cfg) = Inr (False, None)
               \<and> sleep (naps (k + m)) (rate_limit cfg) = Inr (Sleep (rate_limit cfg))"
  shows "tcp_connect_once (env (k + j)) (timeout cfg) = Inl e \<Longrightarrow>
           tcp_rounds env naps cfg h p k N
             = (failed_rounds (TcpAttempt h p Failed) (rate_limit cfg) j @ [TcpAttempt h p Raised],
                Suc (k + j), Inl e)"
    and "tcp_connect_once (env (k + j)) (timeout cfg) = Inr (ok, c) \<Longrightarrow>
         sleep (naps (k + j)) (rate_limit cfg) = Inl e \<Longrightarrow>
           tcp_rounds env naps cfg h p k N
             = (failed_rounds (TcpAttempt h p Failed) (rate_limit cfg) j
                  @ [TcpAttempt h p (returned ok)], Suc (k + j), Inl e)"
    and "tcp_connect_once (env (k + j)) (timeout cfg) = Inr (True, c) \<Longrightarrow>
         sleep (naps (k + j)) (rate_limit cfg) = Inr (Sleep (rate_limit cfg)) \<Longrightarrow>
           tcp_rounds env naps cfg h p k N
             = (failed_rounds (TcpAttempt h p Failed) (rate_limit cfg) j
                  @ [TcpAttempt h p Succeeded, Sleep (rate_limit cfg)], Suc (k + j), Inr (True, c))"
proof -
  from assms(1) obtain n where N: "N = j + Suc n"
    by (metis add_Suc_right less_iff_Suc_add)
  note step = tcp_rounds_failed[OF assms(2), of h p "Suc n", folded N]
  show "tcp_connect_once (env (k + j)) (timeout cfg) = Inl e \<Longrightarrow>
           tcp_rounds env naps cfg h p k N
             = (failed_rounds (TcpAttempt h p Failed) (rate_limit cfg) j @ [TcpAttempt h p Raised],
                Suc (k + j), Inl e)"
    by (simp add: step)
  show "tcp_connect_once (env (k + j)) (timeout cfg) = Inr (ok, c) \<Longrightarrow>
         sleep (naps (k + j)) (rate_limit cfg) = Inl e \<Longrightarrow>
           tcp_rounds env naps cfg h p k N
             = (failed_rounds (TcpAttempt h p Failed) (rate_limit cfg) j
                  @ [TcpAttempt h p (returned ok)], Suc (k + j), Inl e)"
    by (simp add: step)
  show "tcp_connect_once (env (k + j)) (timeout cfg) = Inr (True, c) \<Longrightarrow>
         sleep (naps (k + j)) (rate_limit cfg) = Inr (Sleep (rate_limit cfg)) \<Longrightarrow>
           tcp_rounds env naps cfg h p k N
             = (failed_rounds (TcpAttempt h p Failed) (rate_limit cfg) j
                  @ [TcpAttempt h p Succeeded, Sleep (rate_limit cfg)], Suc (k + j), Inr (True, c))"
    by (simp add: step returned_def)
qed

lemma tcp_rounds_exhaust:
  assumes "\<forall>m<N. tcp_connect_once (env (k + m)) (timeout cfg) = Inr (False, None)
               \<and> sleep (naps (k + m)) (rate_limit cfg) = Inr (Sleep (rate_limit cfg))"
  shows "tcp_rounds env naps cfg h p k N
           = (failed_rounds (TcpAttempt h p Failed) (rate_limit cfg) N, k + N, Inr (False, None))"
  using tcp_rounds_failed[OF assms, of h p 0] by simp

text \<open>A rate limit beyond what \<^verbatim>\<open>time.sleep\<close> accepts: the worker makes one attempt and is
  left by \<^verbatim>\<open>OverflowError\<close>.\<close>

lemma overlong_rate_limit:
  "ping_worker no_reply no_naps overlong_cfg ''10.0.0.1''
     = ([PingAttempt ''10.0.0.1'' Failed], Inl OverflowError)"
  by (simp add: ping_worker_def overlong_cfg_def no_reply_def sleep_def time_max_def
      returned_def numeral_3_eq_3)

text \<open>
  Claim C2, corrected. With \<open>retry = r \<ge> 0\<close>, both retrying probers (\<^verbatim>\<open>ping_worker\<close> and
  \<^verbatim>\<open>tcp_with_retry\<close>) make at most \<open>r + 1\<close> attempts, in every outside world. They sleep
  \<open>rate_limit\<close> after every attempt that returns, not after every attempt: as long as the
  attempts return failure and the sleep after each of them returns, the prober goes on, and
  it stops at the first attempt \<open>j \<le> r\<close> that is not of this kind.
  \<^item> If attempt \<open>j\<close> raises, nothing follows it, no sleep either, and the prober is left by
    that exception.
  \<^item> If attempt \<open>j\<close> returns (success or failure) and \<^verbatim>\<open>time.sleep\<close> raises (a rate limit that
    it does not accept, or an interrupt during the sleep), the prober is left by that
    exception.
  \<^item> If attempt \<open>j\<close> succeeds, the prober sleeps \<open>rate_limit\<close> once more and returns that
    success; there is no attempt after it.
  \<^item> If all \<open>r + 1\<close> attempts fail, each followed by its sleep, the prober returns failure.
  \<^item> So if no attempt and no sleep raises, every attempt in the trace is directly followed
    by a sleep of \<open>rate_limit\<close>.

  In each case the theorem gives the whole trace and the result. For \<^verbatim>\<open>tcp_with_retry\<close> the
  attempts are those at the positions \<open>k, k + 1, \<dots>\<close> of the tape, and the position after the
  call is part of the result.
\<close>

theorem retrying_prober_rounds:
  assumes "0 \<le> retry cfg"
  shows
    "int (attempts (fst (ping_worker penv pnaps cfg ip))) \<le> retry cfg + 1
   \<and> int (attempts (fst (tcp_with_retry tenv tnaps cfg host port k))) \<le> retry cfg + 1
   \<and> (int j \<le> retry cfg
        \<and> (\<forall>i<j. ping_once (penv i) = Inr (False, None)
                 \<and> sleep (pnaps i) (rate_limit cfg) = Inr (Sleep (rate_limit cfg)))
      \<longrightarrow> (ping_once (penv j) = Inl e
            \<longrightarrow> ping_worker penv pnaps cfg ip
                  = (failed_rounds (PingAttempt ip Failed) (rate_limit cfg) j
                       @ [PingAttempt ip Raised], Inl e))
        \<and> (ping_once (penv j) = Inr (ok, c) \<and> sleep (pnaps j) (rate_limit cfg) = Inl e
            \<longrightarrow> ping_worker penv pnaps cfg ip
                  = (failed_rounds (PingAttempt ip Failed) (rate_limit cfg) j
                       @ [PingAttempt ip (returned ok)], Inl e))
        \<and> (ping_once (penv j) = Inr (True, Some ms)
             \<and> sleep (pnaps j) (rate_limit cfg) = Inr (Sleep (rate_limit cfg))
            \<longrightarrow> ping_worker penv pnaps cfg ip
                  = (failed_rounds (PingAttempt ip Failed) (rate_limit cfg) j
                       @ [PingAttempt ip Succeeded, Sleep (rate_limit cfg)],
                     Inr (Some (ip, ms)))))
   \<and> ((\<forall>i. int i \<le> retry cfg
            \<longrightarrow> ping_once (penv i) = Inr (False, None)
                \<and> sleep (pnaps i) (rate_limit cfg) = Inr (Sleep (rate_limit cfg)))
      \<longrightarrow> ping_worker penv pnaps cfg ip
            = (failed_rounds (PingAttempt ip Failed) (rate_limit cfg) (nat (retry cfg + 1)),
               Inr None))
   \<and> ((\<forall>i. int i \<le> retry cfg
            \<longrightarrow> (\<exists>r. ping_once (penv i) = Inr r)
                \<and> sleep (pnaps i) (rate_limit cfg) = Inr (Sleep (rate_limit cfg)))
      \<longrightarrow> sleeps_after_every_attempt (rate_limit cfg) (fst (ping_worker penv pnaps cfg ip)))
   \<and> (int j \<le> retry cfg
        \<and> (\<forall>i<j. tcp_connect_once (tenv (k + i)) (timeout cfg) = Inr (False, None)
                 \<and> sleep (tnaps (k + i)) (rate_limit cfg) = Inr (Sleep (rate_limit cfg)))
      \<longrightarrow> (tcp_connect_once (tenv (k + j)) (timeout cfg) = Inl e
            \<longrightarrow> tcp_with_retry tenv tnaps cfg host port k
                  = (failed_rounds (TcpAttempt host port Failed) (rate_limit cfg) j
                       @ [TcpAttempt host port Raised], k + j + 1, Inl e))
        \<and> (tcp_connect_once (tenv (k + j)) (timeout cfg) = Inr (ok, c)
             \<and> sleep (tnaps (k + j)) (rate_limit cfg) = Inl e
            \<longrightarrow> tcp_with_retry tenv tnaps cfg host port k
                  = (failed_rounds (TcpAttempt host port Failed) (rate_limit cfg) j
                       @ [TcpAttempt host port (returned ok)], k + j + 1, Inl e))
        \<and> (tcp_connect_once (tenv (k + j)) (timeout cfg) = Inr (True, c)
             \<and> sleep (tnaps (k + j)) (rate_limit cfg) = Inr (Sleep (rate_limit cfg))
            \<longrightarrow> tcp_with_retry tenv tnaps cfg host port k
                  = (failed_rounds (TcpAttempt host port Failed) (rate_limit cfg) j
                       @ [TcpAttempt host port Succeeded, Sleep (rate_limit cfg)],
                     k + j + 1, Inr (True, c))))
   \<and> ((\<forall>i. int i \<le> retry cfg
            \<longrightarrow> tcp_connect_once (tenv (k + i)) (timeout cfg) = Inr (False, None)
                \<and> sleep (tnaps (k + i)) (rate_limit cfg) = Inr (Sleep (rate_limit cfg)))
      \<longrightarrow> tcp_with_retry tenv tnaps cfg host port k
            = (failed_rounds (TcpAttempt host port Failed) (rate_limit cfg) (nat (retry cfg + 1)),
               k + nat (retry cfg + 1), Inr (False, None)))
   \<and> ((\<forall>i. int i \<le> retry cfg
            \<longrightarrow> (\<exists>r. tcp_connect_once (tenv (k + i)) (timeout cfg) = Inr r)
                \<and> sleep (tnaps (k + i)) (rate_limit cfg) = Inr (Sleep (rate_limit cfg)))
      \<longrightarrow> sleeps_after_every_attempt (rate_limit cfg)
            (fst (tcp_with_retry tenv tnaps cfg host port k)))"
proof -
  have less: "m < nat (retry cfg + 1) \<longleftrightarrow> int m \<le> retry cfg" for m
    using assms by auto
  have 1: "int (attempts (fst (ping_worker penv pnaps cfg ip))) \<le> retry cfg + 1"
    using ping_rounds_attempts[of penv pnaps cfg ip 0 "nat (retry cfg + 1)"] assms
    by (simp add: ping_worker_def)
  have 2: "int (attempts (fst (tcp_with_retry tenv tnaps cfg host port k))) \<le> retry cfg + 1"
    using tcp_rounds_attempts[of tenv tnaps cfg host port k "nat (retry cfg + 1)"] assms
    by (simp add: tcp_with_retry_def)
  have 3: "ping_worker penv pnaps cfg ip
             = (failed_rounds (PingAttempt ip Failed) (rate_limit cfg) j
                  @ [PingAttempt ip Raised], Inl e)"
    if "int j \<le> retry cfg"
      and "\<forall>i<j. ping_once (penv i) = Inr (False, None)
                 \<and> sleep (pnaps i) (rate_limit cfg) = Inr (Sleep (rate_limit cfg))"
      and "ping_once (penv j) = Inl e"
    using ping_rounds_stop(1)[of j "nat (retry cfg + 1)" penv 0 pnaps cfg e ip] that less
    by (simp add: ping_worker_def)
  have 4: "ping_worker penv pnaps cfg ip
             = (failed_rounds (PingAttempt ip Failed) (rate_limit cfg) j
                  @ [PingAttempt ip (returned ok)], Inl e)"
    if "int j \<le> retry cfg"
      and "\<forall>i<j. ping_once (penv i) = Inr (False, None)
                 \<and> sleep (pnaps i) (rate_limit cfg) = Inr (Sleep (rate_limit cfg))"
      and "ping_once (penv j) = Inr (ok, c)" "sleep (pnaps j) (rate_limit cfg) = Inl e"
    using ping_rounds_stop(2)[of j "nat (retry cfg + 1)" penv 0 pnaps cfg ok c e ip] that less
    by (simp add: ping_worker_def)
  have 5: "ping_worker penv pnaps cfg ip
             = (failed_rounds (PingAttempt ip Failed) (rate_limit cfg) j
                  @ [PingAttempt ip Succeeded, Sleep (rate_limit cfg)], Inr (Some (ip, ms)))"
    if "int j \<le> retry cfg"
      and "\<forall>i<j. ping_once (penv i) = Inr (False, None)
                 \<and> sleep (pnaps i) (rate_limit cfg) = Inr (Sleep (rate_limit cfg))"
      and "ping_once (penv j) = Inr (True, Some ms)"
        "sleep (pnaps j) (rate_limit cfg) = Inr (Sleep (rate_limit cfg))"
    using ping_rounds_stop(3)[of j "nat (retry cfg + 1)" penv 0 pnaps cfg ms ip] that less
    by (simp add: ping_worker_def)
  have 6: "ping_worker penv pnaps cfg ip
            = (failed_rounds (PingAttempt ip Failed) (rate_limit cfg) (nat (retry cfg + 1)),
               Inr None)"
    if "\<forall>i. int i \<le> retry cfg
            \<longrightarrow> ping_once (penv i) = Inr (False, None)
                \<and> sleep (pnaps i) (rate_limit cfg) = Inr (Sleep (rate_limit cfg))"
    using ping_rounds_exhaust[of "nat (retry cfg + 1)" penv 0 pnaps cfg ip] that less
    by (simp add: ping_worker_def)
  have 7: "sleeps_after_every_attempt (rate_limit cfg) (fst (ping_worker penv pnaps cfg ip))"
    if "\<forall>i. int i \<le> retry cfg
            \<longrightarrow> (\<exists>r. ping_once (penv i) = Inr r)
                \<and> sleep (pnaps i) (rate_limit cfg) = Inr (Sleep (rate_limit cfg))"
    using ping_rounds_sleeps[of "nat (retry cfg + 1)" penv 0 pnaps cfg ip] that less
    by (simp add: ping_worker_def)
  have 8: "tcp_with_retry tenv tnaps cfg host port k
                  = (failed_rounds (TcpAttempt host port Failed) (rate_limit cfg) j
                       @ [TcpAttempt host port Raised], k + j + 1, Inl e)"
    if "int j \<le> retry cfg"
      and "\<forall>i<j. tcp_connect_once (tenv (k + i)) (timeout cfg) = Inr (False, None)
                 \<and> sleep (tnaps (k + i)) (rate_limit cfg) = Inr (Sleep (rate_limit cfg))"
      and "tcp_connect_once (tenv (k + j)) (timeout cfg) = Inl e"
    using tcp_rounds_stop(1)[of j "nat (retry cfg + 1)" tenv k cfg tnaps e host port] that less
    by (simp add: tcp_with_retry_def)
  have 9: "tcp_with_retry tenv tnaps cfg host port k
                  = (failed_rounds (TcpAttempt host port Failed) (rate_limit cfg) j
                       @ [TcpAttempt host port (returned ok)], k + j + 1, Inl e)"
    if "int j \<le> retry cfg"
      and "\<forall>i<j. tcp_connect_once (tenv (k + i)) (timeout cfg) = Inr (False, None)
                 \<and> sleep (tnaps (k + i)) (rate_limit cfg) = Inr (Sleep (rate_limit cfg))"
      and "tcp_connect_once (tenv (k + j)) (timeout cfg) = Inr (ok, c)"
        "sleep (tnaps (k + j)) (rate_limit cfg) = Inl e"
    using tcp_rounds_stop(2)[of j "nat (retry cfg + 1)" tenv k cfg tnaps ok c e host port] that less
    by (simp add: tcp_with_retry_def)
  have 10: "tcp_with_retry tenv tnaps cfg host port k
                  = (failed_rounds (TcpAttempt host port Failed) (rate_limit cfg) j
                       @ [TcpAttempt host port Succeeded, Sleep (rate_limit cfg)],
                     k + j + 1, Inr (True, c))"
    if "int j \<le> retry cfg"
      and "\<forall>i<j. tcp_connect_once (tenv (k + i)) (timeout cfg) = Inr (False, None)
                 \<and> sleep (tnaps (k + i)) (rate_limit cfg) = Inr (Sleep (rate_limit cfg))"
      and "tcp_connect_once (tenv (k + j)) (timeout cfg) = Inr (True, c)"
        "sleep (tnaps (k + j)) (rate_limit cfg) = Inr (Sleep (rate_limit cfg))"
    using tcp_rounds_stop(3)[of j "nat (retry cfg + 1)" tenv k cfg tnaps c host port] that less
    by (simp add: tcp_with_retry_def)
  have 11: "tcp_with_retry tenv tnaps cfg host port k
            = (failed_rounds (TcpAttempt host port Failed) (rate_limit cfg) (nat (retry cfg + 1)),
               k + nat (retry cfg + 1), Inr (False, None))"
    if "\<forall>i. int i \<le> retry cfg
            \<longrightarrow> tcp_connect_once (tenv (k + i)) (timeout cfg) = Inr (False, None)
                \<and> sleep (tnaps (k + i)) (rate_limit cfg) = Inr (Sleep (rate_limit cfg))"
    using tcp_rounds_exhaust[of "nat (retry cfg + 1)" tenv k cfg tnaps host port] that less
    by (simp add: tcp_with_retry_def)
  have 12: "sleeps_after_every_attempt (rate_limit cfg)
            (fst (tcp_with_retry tenv tnaps cfg host port k))"
    if "\<forall>i. int i \<le> retry cfg
            \<longrightarrow> (\<exists>r. tcp_connect_once (tenv (k + i)) (timeout cfg) = Inr r)
                \<and> sleep (tnaps (k + i)) (rate_limit cfg) = Inr (Sleep (rate_limit cfg))"
    using tcp_rounds_sleeps[of "nat (retry cfg + 1)" tenv k cfg tnaps host port] that less
    by (simp add: tcp_with_retry_def)
  from 1 2 3 4 5 6 7 8 9 10 11 12 show ?thesis by blast
qed

text \<open>The theorem at work: three pings without reply, and a port that refuses the first
  connection and accepts the second.\<close>

theorem retrying_prober_rounds_witness:
  "0 \<le> retry example_cfg
   \<and> ping_once (no_reply 0) = Inr (False, None)
   \<and> ping_once (no_reply 1) = Inr (False, None)
   \<and> ping_once (no_reply 2) = Inr (False, None)
   \<and> sleep (no_naps 0) (rate_limit example_cfg) = Inr (Sleep (rate_limit example_cfg))
   \<and> ping_worker no_reply no_naps example_cfg ''10.0.0.1''
       = ([PingAttempt ''10.0.0.1'' Failed, Sleep (1 / 2),
           PingAttempt ''10.0.0.1'' Failed, Sleep (1 / 2),
           PingAttempt ''10.0.0.1'' Failed, Sleep (1 / 2)], Inr None)
   \<and> tcp_connect_once (refused_then_open 0) (timeout example_cfg) = Inr (False, None)
   \<and> tcp_connect_once (refused_then_open 1) (timeout example_cfg) = Inr (True, Some 5)
   \<and> tcp_with_retry refused_then_open no_naps example_cfg ''10.0.0.1'' 80 0
       = ([TcpAttempt ''10.0.0.1'' 80 Failed, Sleep (1 / 2),
           TcpAttempt ''10.0.0.1'' 80 Succeeded, Sleep (1 / 2)], 2, Inr (True, Some 5))"
  using retrying_prober_rounds
    [where cfg = example_cfg and penv = no_reply and pnaps = no_naps and ip = "''10.0.0.1''"
       and tenv = refused_then_open and tnaps = no_naps and host = "''10.0.0.1''" and port = 80
       and k = 0 and j = 1 and c = "Some 5"]
  by (simp add: example_cfg_def no_reply_def no_naps_def refused_then_open_def sleep_def
      settimeout_def time_max_def failed_rounds_def numeral_3_eq_3)

text \<open>
  Claim C2 as the specification has it, ``sleeps \<open>rate_limit\<close> after every attempt'', fails
  when an attempt raises: with \<open>retry = 2\<close> and no \<^verbatim>\<open>ping\<close> command on the machine, the worker
  makes one attempt, does not sleep, and is left by \<^verbatim>\<open>FileNotFoundError\<close>.
\<close>

theorem raised_attempt_is_not_followed_by_sleep:
  "0 \<le> retry example_cfg
   \<and> ping_worker ping_missing no_naps example_cfg ''10.0.0.1''
       = ([PingAttempt ''10.0.0.1'' Raised], Inl FileNotFoundError)
   \<and> \<not> sleeps_after_every_attempt (rate_limit example_cfg)
         (fst (ping_worker ping_missing no_naps example_cfg ''10.0.0.1''))"
  by (simp add: ping_worker_def example_cfg_def ping_missing_def numeral_3_eq_3)

section \<open>Address enumerator: the network \<^verbatim>\<open>192.168.1.0/30\<close>\<close>









section \<open>Port list\<close>

text \<open>
  Claim C7. In mode \<^verbatim>\<open>full\<close>, \<^verbatim>\<open>build_port_list\<close> returns the ports 1 to 65535, which are
  65535 entries, and leaves the TCP configuration with \<open>retry = 0\<close> and
  \<open>rate_limit = max(rate_limit, 0.1)\<close>, so at least 0.1. The override is done once: building
  the port list again from the configuration it has left changes nothing more. It is in
  force during the scan, where the prober then makes at most one attempt for each host and
  port. In every other mode that returns a port list the configuration is left as it was.
  No function of the TCP phase returns or changes a configuration (they take it as an
  argument), so nothing is overridden during the scan.
\<close>

theorem build_port_list_full_mode:
  "(mode cfg = Some ''full'' \<longrightarrow>
      build_port_list cfg
        = Inr ([1..65535], cfg\<lparr>retry := 0, rate_limit := max (rate_limit cfg) (1 / 10)\<rparr>)
      \<and> length (fst (projr (build_port_list cfg))) = 65535
      \<and> retry (snd (projr (build_port_list cfg))) = 0
      \<and> rate_limit (snd (projr (build_port_list cfg))) \<ge> 1 / 10
      \<and> build_port_list (snd (projr (build_port_list cfg))) = build_port_list cfg
      \<and> attempts (fst (tcp_with_retry env naps (snd (projr (build_port_list cfg))) host port k))
          \<le> 1)
   \<and> (mode cfg \<noteq> Some ''full'' \<longrightarrow>
        (\<forall>ps cfg'. build_port_list cfg = Inr (ps, cfg') \<longrightarrow> cfg' = cfg))"
proof -
  have "attempts (fst (tcp_with_retry env naps cfg' host port k)) \<le> 1"
    if "retry cfg' = 0" for cfg' :: tcp_cfg
    using tcp_rounds_attempts[of env naps cfg' host port k "nat (retry cfg' + 1)"] that
    by (simp add: tcp_with_retry_def del: tcp_rounds.simps)
  then show ?thesis
    by (auto simp: build_port_list_def Let_def split: option.splits)
qed

text \<open>A full sweep configured with \<open>retry = 3\<close> and a rate limit of 10 ms, and a list of two
  ports.\<close>

theorem build_port_list_full_mode_witness:
  "mode full_sweep_cfg = Some ''full''
   \<and> build_port_list full_sweep_cfg
       = Inr ([1..65535], full_sweep_cfg\<lparr>retry := 0, rate_limit := 1 / 10\<rparr>)
   \<and> mode list_cfg \<noteq> Some ''full''
   \<and> build_port_list list_cfg = Inr ([22, 80], list_cfg)"
  using build_port_list_full_mode [of full_sweep_cfg] build_port_list_full_mode [of list_cfg]
  by (simp add: full_sweep_cfg_def list_cfg_def build_port_list_def)

section \<open>Summary block\<close>















end
